theory Spec2Isabelle
  imports Complex_Main "HOL-Library.Monad_Syntax"
begin

section \<open>Values read from the wire\<close>

text \<open>
  \<^verbatim>\<open>json.loads\<close> turns a frame into Python values: \<^verbatim>\<open>None\<close>, booleans, unbounded
  integers, floats, strings, lists and dictionaries with string keys. A float is a
  rational number or one of the three special values the decoder also accepts
  (\<^verbatim>\<open>Infinity\<close>, \<^verbatim>\<open>-Infinity\<close>, \<^verbatim>\<open>NaN\<close>). A dictionary is an association list
  read with \<open>map_of\<close>, so the first binding of a key is the one that counts.
\<close>

datatype pyfloat = Finite rat | PosInf | NegInf | NaN

datatype json =
    JNull
  | JBool bool
  | JInt int
  | JFloat pyfloat
  | JStr string
  | JArr "json list"
  | JObj "(string \<times> json) list"

type_synonym dict = "(string \<times> json) list"

text \<open>\<^verbatim>\<open>d.get(k, default)\<close>: the default is used only when the key is absent.\<close>

definition dict_get :: "dict \<Rightarrow> string \<Rightarrow> json \<Rightarrow> json" where
  "dict_get d k dflt = (case map_of d k of None \<Rightarrow> dflt | Some v \<Rightarrow> v)"

section \<open>Field validation of the models (models.py)\<close>

text \<open>
  The classes of models.py are pydantic models (the client calls \<^verbatim>\<open>model_dump\<close>, so
  the library is pydantic 2). Building one validates every field against its annotation
  in the library's default (lax) mode and raises \<^verbatim>\<open>ValidationError\<close> when a field is
  missing or has the wrong type; \<open>None\<close> stands for that exception. What the annotations
  of models.py need:
  \<^item> \<^verbatim>\<open>str\<close> accepts a string and nothing else;
  \<^item> \<^verbatim>\<open>int\<close> accepts an integer, a boolean (as 0 or 1), and tries to convert a float
    or a string;
  \<^item> \<^verbatim>\<open>float\<close> accepts a float, a boolean, and tries to convert an integer or a
    string;
  \<^item> \<^verbatim>\<open>Literal[...]\<close> accepts exactly the listed strings;
  \<^item> \<^verbatim>\<open>Optional[T]\<close> accepts \<^verbatim>\<open>None\<close> and whatever \<^verbatim>\<open>T\<close> accepts;
  \<^item> \<^verbatim>\<open>Dict[str, Any]\<close> accepts a dictionary; an instance of a model is not one.

  The numeric conversions (which strings read as numbers, which floats fit an integer,
  which integers fit a float) belong to the library and differ between its releases, so
  they are parameters of the model: every theorem below holds for all of them.
\<close>

record coercions =
  str_as_int :: "string \<Rightarrow> int option"
  float_as_int :: "pyfloat \<Rightarrow> int option"
  str_as_float :: "string \<Rightarrow> pyfloat option"
  int_as_float :: "int \<Rightarrow> pyfloat option"

text \<open>A library that converts nothing: used where a concrete library is needed and
  the input holds no value that would be converted.\<close>

definition no_coercions :: coercions where
  "no_coercions =
     \<lparr>str_as_int = (\<lambda>_. None), float_as_int = (\<lambda>_. None),
      str_as_float = (\<lambda>_. None), int_as_float = (\<lambda>_. None)\<rparr>"

fun validate_str :: "json \<Rightarrow> string option" where
  "validate_str (JStr s) = Some s"
| "validate_str _ = None"

fun validate_int :: "coercions \<Rightarrow> json \<Rightarrow> int option" where
  "validate_int L (JInt n) = Some n"
| "validate_int L (JBool b) = Some (if b then 1 else 0)"
| "validate_int L (JFloat f) = float_as_int L f"
| "validate_int L (JStr s) = str_as_int L s"
| "validate_int L _ = None"

fun validate_float :: "coercions \<Rightarrow> json \<Rightarrow> pyfloat option" where
  "validate_float L (JFloat f) = Some f"
| "validate_float L (JBool b) = Some (Finite (if b then 1 else 0))"
| "validate_float L (JInt n) = int_as_float L n"
| "validate_float L (JStr s) = str_as_float L s"
| "validate_float L _ = None"

fun validate_literal :: "string list \<Rightarrow> json \<Rightarrow> string option" where
  "validate_literal allowed (JStr s) = (if s \<in> set allowed then Some s else None)"
| "validate_literal allowed _ = None"

fun validate_optional_str :: "json \<Rightarrow> string option option" where
  "validate_optional_str JNull = Some None"
| "validate_optional_str (JStr s) = Some (Some s)"
| "validate_optional_str _ = None"

text \<open>A required field: the key must be present and its value must validate.\<close>

definition required :: "(json \<Rightarrow> 'a option) \<Rightarrow> dict \<Rightarrow> string \<Rightarrow> 'a option" where
  "required v d k = (case map_of d k of None \<Rightarrow> None | Some x \<Rightarrow> v x)"

text \<open>A field with the default \<^verbatim>\<open>None\<close>: an absent key gives the default.\<close>

definition defaulted :: "(json \<Rightarrow> 'a option option) \<Rightarrow> dict \<Rightarrow> string \<Rightarrow> 'a option option" where
  "defaulted v d k = (case map_of d k of None \<Rightarrow> Some None | Some x \<Rightarrow> v x)"

subsection \<open>Subscription, SubscriptionMessage\<close>

record ClobApiKeyCreds =
  key :: string
  secret :: string
  passphrase :: string

record GammaAuth =
  address :: string

record Subscription =
  sub_topic :: string
  sub_type :: string
  filters :: "string option"
  clob_auth :: "ClobApiKeyCreds option"
  gamma_auth :: "GammaAuth option"

record SubscriptionMessage =
  subscriptions :: "Subscription list"

fun ClobApiKeyCreds_validate :: "json \<Rightarrow> ClobApiKeyCreds option" where
  "ClobApiKeyCreds_validate (JObj d) =
     do {
       k \<leftarrow> required validate_str d ''key'';
       s \<leftarrow> required validate_str d ''secret'';
       p \<leftarrow> required validate_str d ''passphrase'';
       Some \<lparr>key = k, secret = s, passphrase = p\<rparr>
     }"
| "ClobApiKeyCreds_validate _ = None"

fun GammaAuth_validate :: "json \<Rightarrow> GammaAuth option" where
  "GammaAuth_validate (JObj d) =
     do {
       a \<leftarrow> required validate_str d ''address'';
       Some \<lparr>address = a\<rparr>
     }"
| "GammaAuth_validate _ = None"

text \<open>\<^verbatim>\<open>Optional[M]\<close> for a model \<^verbatim>\<open>M\<close>.\<close>

definition validate_optional :: "(json \<Rightarrow> 'a option) \<Rightarrow> json \<Rightarrow> 'a option option" where
  "validate_optional v x = (if x = JNull then Some None else map_option Some (v x))"

text \<open>\<^verbatim>\<open>Subscription(**kwargs)\<close>: \<open>topic\<close> and \<open>type\<close> are required, the other three
  fields default to \<^verbatim>\<open>None\<close>. The class has no validator relating \<open>clob_auth\<close> to
  \<open>gamma_auth\<close>.\<close>

definition Subscription_validate :: "dict \<Rightarrow> Subscription option" where
  "Subscription_validate d =
     do {
       t \<leftarrow> required validate_str d ''topic'';
       ty \<leftarrow> required validate_str d ''type'';
       f \<leftarrow> defaulted validate_optional_str d ''filters'';
       c \<leftarrow> defaulted (validate_optional ClobApiKeyCreds_validate) d ''clob_auth'';
       g \<leftarrow> defaulted (validate_optional GammaAuth_validate) d ''gamma_auth'';
       Some \<lparr>sub_topic = t, sub_type = ty, filters = f, clob_auth = c, gamma_auth = g\<rparr>
     }"

text \<open>\<^verbatim>\<open>model_dump()\<close>: every field is written, a field that is \<^verbatim>\<open>None\<close> as null, a
  nested model as a dictionary of its fields.\<close>

definition dump_optional :: "('a \<Rightarrow> json) \<Rightarrow> 'a option \<Rightarrow> json" where
  "dump_optional f x = (case x of None \<Rightarrow> JNull | Some y \<Rightarrow> f y)"

definition ClobApiKeyCreds_dump :: "ClobApiKeyCreds \<Rightarrow> json" where
  "ClobApiKeyCreds_dump c =
     JObj [(''key'', JStr (key c)), (''secret'', JStr (secret c)),
           (''passphrase'', JStr (passphrase c))]"

definition GammaAuth_dump :: "GammaAuth \<Rightarrow> json" where
  "GammaAuth_dump g = JObj [(''address'', JStr (address g))]"

definition Subscription_dump :: "Subscription \<Rightarrow> dict" where
  "Subscription_dump s =
     [(''topic'', JStr (sub_topic s)),
      (''type'', JStr (sub_type s)),
      (''filters'', dump_optional JStr (filters s)),
      (''clob_auth'', dump_optional ClobApiKeyCreds_dump (clob_auth s)),
      (''gamma_auth'', dump_optional GammaAuth_dump (gamma_auth s))]"

definition SubscriptionMessage_dump :: "SubscriptionMessage \<Rightarrow> dict" where
  "SubscriptionMessage_dump m =
     [(''subscriptions'', JArr (map (\<lambda>s. JObj (Subscription_dump s)) (subscriptions m)))]"

subsection \<open>Trade, Comment, Reaction\<close>

text \<open>The fields keep the names of models.py behind a prefix for the class, since
  several classes share field names (\<open>id\<close>, \<open>icon\<close>, \<open>timestamp\<close>).\<close>

record Trade =
  t_asset :: string
  t_bio :: string
  t_conditionId :: string
  t_eventSlug :: string
  t_icon :: string
  t_name :: string
  t_outcome :: string
  t_outcomeIndex :: int
  t_price :: pyfloat
  t_profileImage :: string
  t_profileImageOptimized :: "string option"
  t_proxyWallet :: string
  t_pseudonym :: string
  t_side :: string
  t_size :: int
  t_slug :: string
  t_timestamp :: int
  t_title :: string
  t_transactionHash :: string

record Comment =
  c_id :: string
  c_body :: string
  c_parentEntityType :: string
  c_parentEntityID :: int
  c_parentCommentID :: "string option"
  c_userAddress :: string
  c_replyAddress :: "string option"
  c_createdAt :: string
  c_updatedAt :: string

record Reaction =
  r_id :: string
  r_commentID :: int
  r_reactionType :: string
  r_icon :: string
  r_userAddress :: string
  r_createdAt :: string

text \<open>
  \<^verbatim>\<open>Trade(**payload)\<close>: unpacking with \<^verbatim>\<open>**\<close> raises \<^verbatim>\<open>TypeError\<close> unless the payload is
  a dictionary; then every field is validated, keys that name no field are ignored.
  \<open>profileImageOptimized\<close> is the one field with a default. Either exception is \<open>None\<close>
  here: the caller catches both in the same handler.
\<close>

fun Trade_init :: "coercions \<Rightarrow> json \<Rightarrow> Trade option" where
  "Trade_init L (JObj d) =
     do {
       asset \<leftarrow> required validate_str d ''asset'';
       bio \<leftarrow> required validate_str d ''bio'';
       conditionId \<leftarrow> required validate_str d ''conditionId'';
       eventSlug \<leftarrow> required validate_str d ''eventSlug'';
       icon \<leftarrow> required validate_str d ''icon'';
       name \<leftarrow> required validate_str d ''name'';
       outcome \<leftarrow> required validate_str d ''outcome'';
       outcomeIndex \<leftarrow> required (validate_int L) d ''outcomeIndex'';
       price \<leftarrow> required (validate_float L) d ''price'';
       profileImage \<leftarrow> required validate_str d ''profileImage'';
       profileImageOptimized \<leftarrow> defaulted validate_optional_str d ''profileImageOptimized'';
       proxyWallet \<leftarrow> required validate_str d ''proxyWallet'';
       pseudonym \<leftarrow> required validate_str d ''pseudonym'';
       side \<leftarrow> required (validate_literal [''BUY'', ''SELL'']) d ''side'';
       sz \<leftarrow> required (validate_int L) d ''size'';
       slug \<leftarrow> required validate_str d ''slug'';
       ts \<leftarrow> required (validate_int L) d ''timestamp'';
       title \<leftarrow> required validate_str d ''title'';
       transactionHash \<leftarrow> required validate_str d ''transactionHash'';
       Some \<lparr>t_asset = asset, t_bio = bio, t_conditionId = conditionId,
             t_eventSlug = eventSlug, t_icon = icon, t_name = name, t_outcome = outcome,
             t_outcomeIndex = outcomeIndex, t_price = price, t_profileImage = profileImage,
             t_profileImageOptimized = profileImageOptimized, t_proxyWallet = proxyWallet,
             t_pseudonym = pseudonym, t_side = side, t_size = sz, t_slug = slug,
             t_timestamp = ts, t_title = title, t_transactionHash = transactionHash\<rparr>
     }"
| "Trade_init L _ = None"

text \<open>In \<^verbatim>\<open>Comment\<close> the two optional fields are declared with \<^verbatim>\<open>Field(description=...)\<close>
  and no default, so their keys are required; the value may be null.\<close>

fun Comment_init :: "coercions \<Rightarrow> json \<Rightarrow> Comment option" where
  "Comment_init L (JObj d) =
     do {
       i \<leftarrow> required validate_str d ''id'';
       body \<leftarrow> required validate_str d ''body'';
       parentEntityType \<leftarrow>
         required (validate_literal [''Event'', ''Series'']) d ''parentEntityType'';
       parentEntityID \<leftarrow> required (validate_int L) d ''parentEntityID'';
       parentCommentID \<leftarrow> required validate_optional_str d ''parentCommentID'';
       userAddress \<leftarrow> required validate_str d ''userAddress'';
       replyAddress \<leftarrow> required validate_optional_str d ''replyAddress'';
       createdAt \<leftarrow> required validate_str d ''createdAt'';
       updatedAt \<leftarrow> required validate_str d ''updatedAt'';
       Some \<lparr>c_id = i, c_body = body, c_parentEntityType = parentEntityType,
             c_parentEntityID = parentEntityID, c_parentCommentID = parentCommentID,
             c_userAddress = userAddress, c_replyAddress = replyAddress,
             c_createdAt = createdAt, c_updatedAt = updatedAt\<rparr>
     }"
| "Comment_init L _ = None"

fun Reaction_init :: "coercions \<Rightarrow> json \<Rightarrow> Reaction option" where
  "Reaction_init L (JObj d) =
     do {
       i \<leftarrow> required validate_str d ''id'';
       commentID \<leftarrow> required (validate_int L) d ''commentID'';
       reactionType \<leftarrow> required validate_str d ''reactionType'';
       icon \<leftarrow> required validate_str d ''icon'';
       userAddress \<leftarrow> required validate_str d ''userAddress'';
       createdAt \<leftarrow> required validate_str d ''createdAt'';
       Some \<lparr>r_id = i, r_commentID = commentID, r_reactionType = reactionType,
             r_icon = icon, r_userAddress = userAddress, r_createdAt = createdAt\<rparr>
     }"
| "Reaction_init L _ = None"

subsection \<open>Message\<close>

text \<open>\<^verbatim>\<open>PayloadType = Union[Trade, Comment, Reaction, Dict[str, Any]]\<close> of client.py.
  The last case holds whatever value the frame carried under \<open>payload\<close>: the parser
  returns it as it is, a dictionary or not.\<close>

datatype PayloadType =
    IsTrade Trade
  | IsComment Comment
  | IsReaction Reaction
  | IsRaw json

record Message =
  m_topic :: string
  m_type :: string
  m_timestamp :: int
  m_payload :: dict

text \<open>The field \<open>payload\<close> of \<^verbatim>\<open>Message\<close> is annotated \<^verbatim>\<open>Dict[str, Any]\<close>: only a
  dictionary validates.\<close>

fun validate_dict :: "PayloadType \<Rightarrow> dict option" where
  "validate_dict (IsRaw (JObj d)) = Some d"
| "validate_dict _ = None"

definition Message_init :: "coercions \<Rightarrow> json \<Rightarrow> json \<Rightarrow> json \<Rightarrow> PayloadType \<Rightarrow> Message option" where
  "Message_init L topic ty ts p =
     do {
       t \<leftarrow> validate_str topic;
       y \<leftarrow> validate_str ty;
       n \<leftarrow> validate_int L ts;
       d \<leftarrow> validate_dict p;
       Some \<lparr>m_topic = t, m_type = y, m_timestamp = n, m_payload = d\<rparr>
     }"

section \<open>The client (client.py)\<close>

text \<open>
  What the client does to the outside is recorded as a list of events, in the order
  the code performs them: calls of the logger (the level and the fixed part of the
  text), calls of the two hooks, calls on the transport and on the keepalive task.
\<close>

datatype level = DEBUG | INFO | WARNING | ERROR

datatype event =
    Logged level string
  | Connecting
  | OnConnect
  | OnMessage Message
  | PingStarted
  | PingCancelled
  | Sleep nat
  | WsSend json
  | WsClose
  | DisconnectCalled

text \<open>A hook is user code: a call of it returns or raises. Both calls go through
  \<^verbatim>\<open>run_in_executor\<close> and are awaited, so the caller sees the exception.\<close>

datatype hook_result = Returns | Raises

text \<open>
  The fields of \<^verbatim>\<open>PolymarketWSClient\<close> that decide what is modelled here. A hook
  that is set is given by what a call of it does (the message hook as a function of the
  envelope). The transport handle is open or closed; the keepalive task is active or
  cancelled; \<open>websocket\<close> and \<open>ping_task\<close> start as \<^verbatim>\<open>None\<close>. The address, the
  TLS flag, the ping interval and the blockchain handle are left out, and so are the
  pings the keepalive task sends while it is active: they run beside the receive loop
  and change none of these fields.
\<close>

datatype ws = OPEN | CLOSED

datatype task = ACTIVE | CANCELLED

record client =
  auto_reconnect :: bool
  on_connect_callback :: "hook_result option"
  on_message_callback :: "(Message \<Rightarrow> hook_result) option"
  websocket :: "ws option"
  ping_task :: "task option"
  running :: bool

subsection \<open>\<^verbatim>\<open>_parse_payload\<close>\<close>

text \<open>One \<^verbatim>\<open>return Model(**payload)\<close> under the \<^verbatim>\<open>try\<close>: the model when it builds,
  otherwise the handler's warning and the payload as it came.\<close>

definition structured :: "('a \<Rightarrow> PayloadType) \<Rightarrow> 'a option \<Rightarrow> json \<Rightarrow> event list \<times> PayloadType" where
  "structured wrap built payload =
     (case built of
        Some x \<Rightarrow> ([], wrap x)
      | None \<Rightarrow> ([Logged WARNING ''Failed to parse payload''], IsRaw payload))"

text \<open>\<open>topic\<close> and \<open>payload_type\<close> are whatever the frame held under those keys, so
  they are values, not strings; \<^verbatim>\<open>==\<close> and \<^verbatim>\<open>in\<close> compare them with the string
  constants.\<close>

definition parse_payload :: "coercions \<Rightarrow> json \<Rightarrow> json \<Rightarrow> json \<Rightarrow> event list \<times> PayloadType" where
  "parse_payload L topic payload_type payload =
     (if topic = JStr ''activity'' \<and> payload_type = JStr ''trades''
      then structured IsTrade (Trade_init L payload) payload
      else if topic = JStr ''comments''
      then
        (if payload_type \<in> set [JStr ''comment_created'', JStr ''comment_removed'']
         then structured IsComment (Comment_init L payload) payload
         else if payload_type \<in> set [JStr ''reaction_created'', JStr ''reaction_removed'']
         then structured IsReaction (Reaction_init L payload) payload
         else ([], IsRaw payload))
      else ([], IsRaw payload))"

subsection \<open>\<^verbatim>\<open>_message_loop\<close>\<close>

text \<open>\<^verbatim>\<open>json.loads\<close> is the standard library's: a frame is its text together with what
  \<^verbatim>\<open>json.loads\<close> does on it, which is to return a value, to raise
  \<^verbatim>\<open>JSONDecodeError\<close>, or to raise another exception (bytes that are not UTF-8).\<close>

datatype loads_result = Loaded json | JSONDecodeError | OtherException

record frame =
  raw :: string
  loads :: loads_result

text \<open>The hook, when one is set; an exception of the hook reaches the last handler of
  the loop body.\<close>

definition dispatch :: "client \<Rightarrow> Message \<Rightarrow> event list" where
  "dispatch c msg =
     (case on_message_callback c of
        None \<Rightarrow> []
      | Some h \<Rightarrow>
          OnMessage msg #
          (case h msg of
             Returns \<Rightarrow> []
           | Raises \<Rightarrow> [Logged ERROR ''Error processing message'']))"

text \<open>The body of the \<^verbatim>\<open>async for\<close>, for one frame.\<close>

definition process_frame :: "coercions \<Rightarrow> client \<Rightarrow> frame \<Rightarrow> event list" where
  "process_frame L c fr =
     (if raw fr = [] then []
      else
        case loads fr of
          JSONDecodeError \<Rightarrow> [Logged ERROR ''Failed to parse message'']
        | OtherException \<Rightarrow> [Logged ERROR ''Error processing message'']
        | Loaded (JObj d) \<Rightarrow>
            (if map_of d ''payload'' \<noteq> None
             then
               let topic = dict_get d ''topic'' (JStr '''');
                   msg_type = dict_get d ''type'' (JStr '''');
                   (warned, parsed_payload) =
                      parse_payload L topic msg_type (dict_get d ''payload'' (JObj []))
               in
                 case Message_init L topic msg_type (dict_get d ''timestamp'' (JInt 0))
                        parsed_payload of
                   None \<Rightarrow> warned @ [Logged ERROR ''Error processing message'']
                 | Some msg \<Rightarrow> warned @ dispatch c msg
             else [Logged DEBUG ''Received message''])
        | Loaded _ \<Rightarrow> [Logged DEBUG ''Received message''])"

subsection \<open>\<^verbatim>\<open>disconnect\<close>\<close>

definition disconnect :: "client \<Rightarrow> event list \<times> client" where
  "disconnect c =
     (let c1 = c\<lparr>running := False\<rparr>
      in case websocket c1 of
           None \<Rightarrow> ([], c1)
         | Some w \<Rightarrow> ([WsClose], c1\<lparr>websocket := Some CLOSED\<rparr>))"

text \<open>
  The event loop runs one coroutine at a time and changes over only at an
  \<^verbatim>\<open>await\<close>. What the receive loop meets at its \<^verbatim>\<open>await\<close>, in order: the transport
  yields a frame; another task has called \<^verbatim>\<open>disconnect()\<close> in the meantime; the
  transport raises (the connection was lost). At the end of the list the transport is
  closed and the iteration stops. Frames listed after a call of \<^verbatim>\<open>disconnect()\<close> are
  those the transport still yields before it stops.

  The receive loop is not the only \<^verbatim>\<open>await\<close> of a turn. A call of \<^verbatim>\<open>disconnect()\<close>
  while the handshake is pending acts on the client the turn starts from, before the
  turn sets \<open>websocket\<close> and \<open>running\<close>: it is \<open>disconnect\<close> applied to that client.
  A call while the connect hook runs is not among the cases below.
\<close>

datatype arrival = Recv frame | Call_disconnect | Lost

text \<open>The result: the events, the client, and whether the loop ended without an
  exception.\<close>

fun message_loop :: "coercions \<Rightarrow> client \<Rightarrow> arrival list \<Rightarrow> event list \<times> client \<times> bool" where
  "message_loop L c [] = ([], c, True)"
| "message_loop L c (Recv fr # rest) =
     (case message_loop L c rest of
        (es, c', ok) \<Rightarrow> (process_frame L c fr @ es, c', ok))"
| "message_loop L c (Call_disconnect # rest) =
     (case disconnect c of
        (ds, c1) \<Rightarrow>
          (case message_loop L c1 rest of
             (es, c', ok) \<Rightarrow> (DisconnectCalled # ds @ es, c', ok)))"
| "message_loop L c (Lost # rest) = ([], c, False)"

subsection \<open>\<^verbatim>\<open>connect\<close>\<close>

text \<open>The body of \<^verbatim>\<open>async with connect(...) as websocket\<close>. The last component
  tells whether the body ended without an exception: an exception of the receive loop
  is caught inside, one of the connect hook is not.\<close>

definition session :: "coercions \<Rightarrow> client \<Rightarrow> arrival list \<Rightarrow> event list \<times> client \<times> bool" where
  "session L c arrivals =
     (let c1 = c\<lparr>websocket := Some OPEN, running := True\<rparr>
      in case on_connect_callback c1 of
           Some Raises \<Rightarrow> ([Logged INFO ''Connected'', OnConnect], c1, False)
         | hook \<Rightarrow>
             (case message_loop L (c1\<lparr>ping_task := Some ACTIVE\<rparr>) arrivals of
                (es, c2, ok) \<Rightarrow>
                  ([Logged INFO ''Connected'']
                   @ (case hook of None \<Rightarrow> [] | Some _ \<Rightarrow> [OnConnect])
                   @ [PingStarted]
                   @ es
                   @ (if ok then [] else [Logged ERROR ''Message loop error''])
                   @ [PingCancelled],
                   c2\<lparr>ping_task := Some CANCELLED\<rparr>,
                   True)))"

text \<open>What the network does to one connection attempt: it is refused, or it is
  established and the transport then behaves as listed.\<close>

datatype attempt = Refused | Established "arrival list"

text \<open>One turn of the \<^verbatim>\<open>while True\<close>, up to the two tests of \<open>auto_reconnect\<close>.
  Leaving the \<^verbatim>\<open>async with\<close> closes the transport; the handle stays in
  \<open>websocket\<close>. The last component tells whether the turn ended without entering the
  outer handler.\<close>

fun connect_once :: "coercions \<Rightarrow> client \<Rightarrow> attempt \<Rightarrow> event list \<times> client \<times> bool" where
  "connect_once L c Refused = ([Connecting, Logged ERROR ''Connection error''], c, False)"
| "connect_once L c (Established arrivals) =
     (case session L c arrivals of
        (es, c', ok) \<Rightarrow>
          (Connecting # es @ (if ok then [] else [Logged ERROR ''Connection error'']),
           c'\<lparr>websocket := Some CLOSED\<rparr>,
           ok))"

text \<open>
  \<^verbatim>\<open>connect\<close> loops for as long as the network answers: each turn takes the next
  attempt. The last component tells whether \<^verbatim>\<open>connect\<close> has returned; it is \<open>False\<close>
  when the list is used up and the loop waits for the next attempt.
\<close>

fun connect :: "coercions \<Rightarrow> client \<Rightarrow> attempt list \<Rightarrow> event list \<times> client \<times> bool" where
  "connect L c [] = ([], c, False)"
| "connect L c (a # rest) =
     (case connect_once L c a of
        (es, c', ok) \<Rightarrow>
          if \<not> ok then
            (if \<not> auto_reconnect c' then (es, c', True)
             else
               (case connect L c' rest of
                  (es', c'', returned) \<Rightarrow> (es @ Sleep 5 # es', c'', returned)))
          else if \<not> auto_reconnect c' then (es, c', True)
          else
            (case connect L c' rest of
               (es', c'', returned) \<Rightarrow> (es @ es', c'', returned)))"

subsection \<open>\<^verbatim>\<open>subscribe\<close>, \<^verbatim>\<open>unsubscribe\<close>\<close>

datatype error = NotConnected

text \<open>\<^verbatim>\<open>{"action": action, **msg.model_dump()}\<close>, the value handed to \<^verbatim>\<open>json.dumps\<close>.\<close>

definition subscription_dict :: "string \<Rightarrow> SubscriptionMessage \<Rightarrow> json" where
  "subscription_dict action msg = JObj ((''action'', JStr action) # SubscriptionMessage_dump msg)"

text \<open>
  The test \<^verbatim>\<open>if not self.websocket\<close> is on the handle being unset. \<^verbatim>\<open>send\<close> on a
  closed handle raises; on an open one the network decides (\<open>delivered\<close>). The
  handler logs and closes the handle.
\<close>

definition subscribe :: "client \<Rightarrow> SubscriptionMessage \<Rightarrow> bool \<Rightarrow> error + event list \<times> client" where
  "subscribe c msg delivered =
     (case websocket c of
        None \<Rightarrow> Inl NotConnected
      | Some w \<Rightarrow>
          if w = OPEN \<and> delivered
          then Inr ([WsSend (subscription_dict ''subscribe'' msg), Logged INFO ''Subscribed''], c)
          else Inr ([WsSend (subscription_dict ''subscribe'' msg),
                     Logged ERROR ''Subscribe error'', WsClose],
                    c\<lparr>websocket := Some CLOSED\<rparr>))"

definition unsubscribe :: "client \<Rightarrow> SubscriptionMessage \<Rightarrow> bool \<Rightarrow> error + event list \<times> client" where
  "unsubscribe c msg delivered =
     (case websocket c of
        None \<Rightarrow> Inl NotConnected
      | Some w \<Rightarrow>
          if w = OPEN \<and> delivered
          then Inr ([WsSend (subscription_dict ''unsubscribe'' msg), Logged INFO ''Unsubscribed''], c)
          else Inr ([WsSend (subscription_dict ''unsubscribe'' msg),
                     Logged ERROR ''Unsubscribe error'', WsClose],
                    c\<lparr>websocket := Some CLOSED\<rparr>))"

section \<open>Notions used by the statements\<close>

text \<open>The pair (topic, type) has a line in the table of \<^verbatim>\<open>_parse_payload\<close> and the
  model of that line does not build from the payload.\<close>

definition decode_fails :: "coercions \<Rightarrow> json \<Rightarrow> json \<Rightarrow> json \<Rightarrow> bool" where
  "decode_fails L topic payload_type payload =
     (topic = JStr ''activity'' \<and> payload_type = JStr ''trades'' \<and> Trade_init L payload = None
      \<or> topic = JStr ''comments''
          \<and> (payload_type = JStr ''comment_created'' \<or> payload_type = JStr ''comment_removed'')
          \<and> Comment_init L payload = None
      \<or> topic = JStr ''comments''
          \<and> (payload_type = JStr ''reaction_created'' \<or> payload_type = JStr ''reaction_removed'')
          \<and> Reaction_init L payload = None)"

text \<open>The events that follow the first call of \<^verbatim>\<open>disconnect()\<close>.\<close>

definition after_disconnect :: "event list \<Rightarrow> event list" where
  "after_disconnect tr = drop 1 (dropWhile (\<lambda>e. e \<noteq> DisconnectCalled) tr)"

text \<open>Reading an outbound frame back: \<^verbatim>\<open>json.loads\<close> undoes \<^verbatim>\<open>json.dumps\<close> on the
  values \<^verbatim>\<open>model_dump\<close> produces, so the reader gets the value that was sent; it then
  takes the action marker and validates the rest as a \<^verbatim>\<open>SubscriptionMessage\<close>.\<close>

fun validate_subscriptions :: "json list \<Rightarrow> Subscription list option" where
  "validate_subscriptions [] = Some []"
| "validate_subscriptions (JObj d # rest) =
     do {
       s \<leftarrow> Subscription_validate d;
       ss \<leftarrow> validate_subscriptions rest;
       Some (s # ss)
     }"
| "validate_subscriptions (_ # rest) = None"

fun validate_subscription_list :: "json \<Rightarrow> Subscription list option" where
  "validate_subscription_list (JArr xs) = validate_subscriptions xs"
| "validate_subscription_list _ = None"

fun read_frame :: "json \<Rightarrow> (string \<times> SubscriptionMessage) option" where
  "read_frame (JObj d) =
     do {
       a \<leftarrow> required validate_str d ''action'';
       ss \<leftarrow> required validate_subscription_list d ''subscriptions'';
       Some (a, \<lparr>subscriptions = ss\<rparr>)
     }"
| "read_frame _ = None"

subsection \<open>Concrete inputs\<close>

text \<open>A client as the constructor leaves it, with both hooks set and the default
  \<open>auto_reconnect\<close>; the same client with \<open>auto_reconnect\<close> switched off; and a client
  whose connection is up.\<close>

definition fresh_client :: client where
  "fresh_client =
     \<lparr>auto_reconnect = True, on_connect_callback = Some Returns,
      on_message_callback = Some (\<lambda>_. Returns), websocket = None,
      ping_task = None, running = False\<rparr>"

definition single_shot_client :: client where
  "single_shot_client = fresh_client\<lparr>auto_reconnect := False\<rparr>"

definition connected_client :: client where
  "connected_client =
     fresh_client\<lparr>websocket := Some OPEN, ping_task := Some ACTIVE, running := True\<rparr>"

text \<open>The payload of the specification's scenario with \<open>asset\<close> missing (the complete
  trade puts \<open>asset\<close> in front), a frame for the pair (activity, trades) with a given
  timestamp and payload, and such a frame with no timestamp at all.\<close>

definition trade_fields :: dict where
  "trade_fields =
     [(''bio'', JStr ''''), (''conditionId'', JStr ''0xc''), (''eventSlug'', JStr ''e''),
      (''icon'', JStr ''i''), (''name'', JStr ''n''), (''outcome'', JStr ''Yes''),
      (''outcomeIndex'', JInt 0), (''price'', JFloat (Finite (1 / 2))),
      (''profileImage'', JStr ''''), (''proxyWallet'', JStr ''0xw''),
      (''pseudonym'', JStr ''p''), (''side'', JStr ''BUY''), (''size'', JInt 10),
      (''slug'', JStr ''s''), (''timestamp'', JInt 1700000000), (''title'', JStr ''t''),
      (''transactionHash'', JStr ''0xh'')]"

definition trade_frame :: "json \<Rightarrow> json \<Rightarrow> frame" where
  "trade_frame ts payload =
     \<lparr>raw = ''{...}'',
      loads = Loaded (JObj [(''topic'', JStr ''activity''), (''type'', JStr ''trades''),
                            (''timestamp'', ts), (''payload'', payload)])\<rparr>"

definition untimed :: frame where
  "untimed = \<lparr>raw = ''{...}'',
      loads = Loaded (JObj [(''topic'', JStr ''activity''), (''type'', JStr ''trades''),
                            (''payload'', JObj trade_fields)])\<rparr>"

text \<open>A comment and a reaction that build.\<close>

definition comment_fields :: dict where
  "comment_fields =
     [(''id'', JStr ''17''), (''body'', JStr ''hello''), (''parentEntityType'', JStr ''Event''),
      (''parentEntityID'', JInt 100), (''parentCommentID'', JNull),
      (''userAddress'', JStr ''0xu''), (''replyAddress'', JNull),
      (''createdAt'', JStr ''2024-01-01''), (''updatedAt'', JStr ''2024-01-02'')]"

definition reaction_fields :: dict where
  "reaction_fields =
     [(''id'', JStr ''3''), (''commentID'', JInt 17), (''reactionType'', JStr ''HEART''),
      (''icon'', JStr ''i''), (''userAddress'', JStr ''0xu''),
      (''createdAt'', JStr ''2024-01-01'')]"

text \<open>A frame that carries a payload and none of the three header keys.\<close>

definition bare :: frame where
  "bare = \<lparr>raw = ''{...}'', loads = Loaded (JObj [(''payload'', JObj [(''k'', JInt 1)])])\<rparr>"

text \<open>The subscription of \<^verbatim>\<open>examples/basic_usage.py\<close>, and one that carries both
  kinds of credentials.\<close>

definition trades_subscription :: Subscription where
  "trades_subscription =
     \<lparr>sub_topic = ''activity'', sub_type = ''trades'', filters = None, clob_auth = None,
      gamma_auth = None\<rparr>"

definition both_credentials :: Subscription where
  "both_credentials =
     \<lparr>sub_topic = ''comments'', sub_type = ''*'', filters = None,
      clob_auth = Some \<lparr>key = ''k'', secret = ''s'', passphrase = ''p''\<rparr>,
      gamma_auth = Some \<lparr>address = ''0xa''\<rparr>\<rparr>"

section \<open>Properties\<close>

subsection \<open>The payload table\<close>

lemma parse_payload_trades:
  "parse_payload L (JStr ''activity'') (JStr ''trades'') payload
     = structured IsTrade (Trade_init L payload) payload"
  by (simp add: parse_payload_def)

lemma parse_payload_comment_created:
  "parse_payload L (JStr ''comments'') (JStr ''comment_created'') payload
     = structured IsComment (Comment_init L payload) payload"
  by (simp add: parse_payload_def)

lemma parse_payload_comment_removed:
  "parse_payload L (JStr ''comments'') (JStr ''comment_removed'') payload
     = structured IsComment (Comment_init L payload) payload"
  by (simp add: parse_payload_def)

lemma parse_payload_reaction_created:
  "parse_payload L (JStr ''comments'') (JStr ''reaction_created'') payload
     = structured IsReaction (Reaction_init L payload) payload"
  by (simp add: parse_payload_def)

lemma parse_payload_reaction_removed:
  "parse_payload L (JStr ''comments'') (JStr ''reaction_removed'') payload
     = structured IsReaction (Reaction_init L payload) payload"
  by (simp add: parse_payload_def)

lemmas parse_payload_table =
  parse_payload_trades parse_payload_comment_created parse_payload_comment_removed
  parse_payload_reaction_created parse_payload_reaction_removed

lemma structured_None:
  "structured wrap None payload = ([Logged WARNING ''Failed to parse payload''], IsRaw payload)"
  by (simp add: structured_def)

lemma structured_Some: "structured wrap (Some x) payload = ([], wrap x)"
  by (simp add: structured_def)

lemma nested_if_cases:
  "(if a then x else if b then (if c then y else if d then z else w) else w) = x
   \<or> (if a then x else if b then (if c then y else if d then z else w) else w) = y
   \<or> (if a then x else if b then (if c then y else if d then z else w) else w) = z
   \<or> (if a then x else if b then (if c then y else if d then z else w) else w) = w"
  by simp

lemma parse_payload_cases:
  "parse_payload L topic ty v = structured IsTrade (Trade_init L v) v
   \<or> parse_payload L topic ty v = structured IsComment (Comment_init L v) v
   \<or> parse_payload L topic ty v = structured IsReaction (Reaction_init L v) v
   \<or> parse_payload L topic ty v = ([], IsRaw v)"
  unfolding parse_payload_def by (rule nested_if_cases)

lemma parse_payload_warned:
  "fst (parse_payload L topic ty v) = []
   \<or> fst (parse_payload L topic ty v) = [Logged WARNING ''Failed to parse payload'']"
  using parse_payload_cases [of L topic ty v]
  by (auto simp: structured_def split: option.splits)

lemma nested_if_last:
  assumes "\<not> a" and "b \<Longrightarrow> \<not> c \<and> \<not> d"
  shows "(if a then x else if b then (if c then y else if d then z else w) else w) = w"
  using assms by auto

lemma parse_payload_fallback:
  assumes "decode_fails L topic ty payload"
  shows "parse_payload L topic ty payload
           = ([Logged WARNING ''Failed to parse payload''], IsRaw payload)"
  using assms unfolding decode_fails_def
  by (elim disjE conjE) (simp_all only: parse_payload_table structured_None)

lemma init_non_dict:
  assumes "\<forall>p. v \<noteq> JObj p"
  shows "Trade_init L v = None" "Comment_init L v = None" "Reaction_init L v = None"
  using assms by (cases v; simp)+

lemma parse_payload_non_dict:
  assumes "\<forall>p. v \<noteq> JObj p"
  shows "parse_payload L topic ty v = ([], IsRaw v)
         \<or> parse_payload L topic ty v = ([Logged WARNING ''Failed to parse payload''], IsRaw v)"
  using parse_payload_cases [of L topic ty v]
  by (auto simp only: init_non_dict [OF assms] structured_None)

text \<open>
  Claim C6. When the model of a line of the table builds from the payload,
  \<^verbatim>\<open>_parse_payload\<close> returns that model and logs nothing: Trade for
  (activity, trades), Comment for (comments, comment_created) and
  (comments, comment_removed), Reaction for (comments, reaction_created) and
  (comments, reaction_removed). For any other pair it returns the payload unchanged.
\<close>

theorem parse_payload_follows_table:
  "(Trade_init L p = Some t \<longrightarrow>
      parse_payload L (JStr ''activity'') (JStr ''trades'') p = ([], IsTrade t))
   \<and> (Comment_init L p = Some cm \<longrightarrow>
      parse_payload L (JStr ''comments'') (JStr ''comment_created'') p = ([], IsComment cm)
      \<and> parse_payload L (JStr ''comments'') (JStr ''comment_removed'') p = ([], IsComment cm))
   \<and> (Reaction_init L p = Some r \<longrightarrow>
      parse_payload L (JStr ''comments'') (JStr ''reaction_created'') p = ([], IsReaction r)
      \<and> parse_payload L (JStr ''comments'') (JStr ''reaction_removed'') p = ([], IsReaction r))
   \<and> ((topic, ty) \<notin> {(JStr ''activity'', JStr ''trades''),
                       (JStr ''comments'', JStr ''comment_created''),
                       (JStr ''comments'', JStr ''comment_removed''),
                       (JStr ''comments'', JStr ''reaction_created''),
                       (JStr ''comments'', JStr ''reaction_removed'')} \<longrightarrow>
      parse_payload L topic ty p = ([], IsRaw p))"
proof (intro conjI impI)
  assume "(topic, ty) \<notin> {(JStr ''activity'', JStr ''trades''),
                       (JStr ''comments'', JStr ''comment_created''),
                       (JStr ''comments'', JStr ''comment_removed''),
                       (JStr ''comments'', JStr ''reaction_created''),
                       (JStr ''comments'', JStr ''reaction_removed'')}"
  then have a: "\<not> (topic = JStr ''activity'' \<and> ty = JStr ''trades'')"
    and b: "topic = JStr ''comments'' \<Longrightarrow>
              ty \<notin> set [JStr ''comment_created'', JStr ''comment_removed'']
              \<and> ty \<notin> set [JStr ''reaction_created'', JStr ''reaction_removed'']"
    by auto
  show "parse_payload L topic ty p = ([], IsRaw p)"
    unfolding parse_payload_def using a b by (rule nested_if_last)
qed (simp_all only: parse_payload_table structured_Some)

text \<open>The trade of the specification's scenario resolves to a Trade with side BUY and
  size 10.\<close>

theorem parse_payload_follows_table_witness:
  "\<exists>t. Trade_init no_coercions (JObj ((''asset'', JStr ''0x1'') # trade_fields)) = Some t
       \<and> parse_payload no_coercions (JStr ''activity'') (JStr ''trades'')
            (JObj ((''asset'', JStr ''0x1'') # trade_fields)) = ([], IsTrade t)
       \<and> t_side t = ''BUY'' \<and> t_size t = 10 \<and> t_asset t = ''0x1''"
proof -
  obtain t where t: "Trade_init no_coercions (JObj ((''asset'', JStr ''0x1'') # trade_fields)) = Some t"
    and f: "t_side t = ''BUY''" "t_size t = 10" "t_asset t = ''0x1''"
    by (simp add: trade_fields_def required_def defaulted_def)
  from parse_payload_follows_table
         [of no_coercions "JObj ((''asset'', JStr ''0x1'') # trade_fields)" t] t
  have "parse_payload no_coercions (JStr ''activity'') (JStr ''trades'')
            (JObj ((''asset'', JStr ''0x1'') # trade_fields)) = ([], IsTrade t)"
    by blast
  with t f show ?thesis by blast
qed

text \<open>The rows of Comment and Reaction, each at a payload that builds.\<close>

lemma comment_resolves:
  "parse_payload no_coercions (JStr ''comments'') (JStr ''comment_created'') (JObj comment_fields) =
     ([], IsComment \<lparr>c_id = ''17'', c_body = ''hello'', c_parentEntityType = ''Event'',
                     c_parentEntityID = 100, c_parentCommentID = None, c_userAddress = ''0xu'',
                     c_replyAddress = None, c_createdAt = ''2024-01-01'',
                     c_updatedAt = ''2024-01-02''\<rparr>)"
  by (simp add: parse_payload_comment_created structured_def comment_fields_def required_def)

lemma reaction_resolves:
  "parse_payload no_coercions (JStr ''comments'') (JStr ''reaction_removed'') (JObj reaction_fields) =
     ([], IsReaction \<lparr>r_id = ''3'', r_commentID = 17, r_reactionType = ''HEART'', r_icon = ''i'',
                      r_userAddress = ''0xu'', r_createdAt = ''2024-01-01''\<rparr>)"
  by (simp add: parse_payload_reaction_removed structured_def reaction_fields_def required_def)

subsection \<open>The envelope and the body of the receive loop\<close>

lemma validate_dict_non_dict: "\<forall>p. v \<noteq> JObj p \<Longrightarrow> validate_dict (IsRaw v) = None"
  by (cases v) simp_all

lemma Message_init_non_dict:
  "validate_dict p = None \<Longrightarrow> Message_init L topic ty ts p = None"
  by (simp add: Message_init_def split: Option.bind_split)

lemma Message_init_Some:
  assumes "Message_init L topic ty ts p = Some m"
  shows "topic = JStr (m_topic m)" "ty = JStr (m_type m)"
    "validate_int L ts = Some (m_timestamp m)" "p = IsRaw (JObj (m_payload m))"
proof -
  from assms obtain t y n d where
    v: "validate_str topic = Some t" "validate_str ty = Some y"
       "validate_int L ts = Some n" "validate_dict p = Some d"
    and m: "m = \<lparr>m_topic = t, m_type = y, m_timestamp = n, m_payload = d\<rparr>"
    by (auto simp: Message_init_def Option.bind_eq_Some_conv)
  from v(1) have "topic = JStr t" by (cases topic) simp_all
  moreover from v(2) have "ty = JStr y" by (cases ty) simp_all
  moreover from v(4) have "p = IsRaw (JObj d)"
    by (cases p rule: validate_dict.cases) simp_all
  ultimately show "topic = JStr (m_topic m)" "ty = JStr (m_type m)"
    "validate_int L ts = Some (m_timestamp m)" "p = IsRaw (JObj (m_payload m))"
    using v(3) m by simp_all
qed

lemma dispatch_events:
  "e \<in> set (dispatch c msg) \<Longrightarrow> e = OnMessage msg \<or> e = Logged ERROR ''Error processing message''"
  by (auto simp: dispatch_def split: option.splits hook_result.splits)

text \<open>What a frame that reaches the hook went through.\<close>

lemma process_frame_OnMessage:
  assumes "OnMessage m \<in> set (process_frame L c fr)"
  shows "\<exists>d. loads fr = Loaded (JObj d) \<and> raw fr \<noteq> [] \<and> map_of d ''payload'' \<noteq> None
           \<and> Message_init L (dict_get d ''topic'' (JStr '''')) (dict_get d ''type'' (JStr ''''))
                (dict_get d ''timestamp'' (JInt 0))
                (snd (parse_payload L (dict_get d ''topic'' (JStr ''''))
                        (dict_get d ''type'' (JStr '''')) (dict_get d ''payload'' (JObj []))))
              = Some m"
proof (cases "loads fr")
  case (Loaded v)
  show ?thesis
  proof (cases v)
    case (JObj d)
    let ?pp = "parse_payload L (dict_get d ''topic'' (JStr ''''))
                 (dict_get d ''type'' (JStr '''')) (dict_get d ''payload'' (JObj []))"
    obtain w r where pp: "?pp = (w, r)" by (cases ?pp)
    have w: "w = [] \<or> w = [Logged WARNING ''Failed to parse payload'']"
      using parse_payload_warned [of L "dict_get d ''topic'' (JStr '''')"
              "dict_get d ''type'' (JStr '''')" "dict_get d ''payload'' (JObj [])"] pp
      by simp
    from assms Loaded JObj pp w show ?thesis
      by (auto simp: process_frame_def split: if_splits option.splits dest: dispatch_events)
  qed (use assms Loaded in \<open>auto simp: process_frame_def split: if_splits\<close>)
qed (use assms in \<open>auto simp: process_frame_def split: if_splits\<close>)

lemma process_frame_events:
  assumes "e \<in> set (process_frame L c fr)"
  shows "(\<exists>l s. e = Logged l s) \<or> (\<exists>m. e = OnMessage m)"
proof (cases "loads fr")
  case (Loaded v)
  show ?thesis
  proof (cases v)
    case (JObj d)
    let ?pp = "parse_payload L (dict_get d ''topic'' (JStr ''''))
                 (dict_get d ''type'' (JStr '''')) (dict_get d ''payload'' (JObj []))"
    obtain w r where pp: "?pp = (w, r)" by (cases ?pp)
    have w: "w = [] \<or> w = [Logged WARNING ''Failed to parse payload'']"
      using parse_payload_warned [of L "dict_get d ''topic'' (JStr '''')"
              "dict_get d ''type'' (JStr '''')" "dict_get d ''payload'' (JObj [])"] pp
      by simp
    from assms Loaded JObj pp w show ?thesis
      by (auto simp: process_frame_def split: if_splits option.splits dest: dispatch_events)
  qed (use assms Loaded in \<open>auto simp: process_frame_def split: if_splits\<close>)
qed (use assms in \<open>auto simp: process_frame_def split: if_splits\<close>)

lemma process_trade_frame:
  "process_frame no_coercions c (trade_frame (JInt 5) (JObj trade_fields)) =
     Logged WARNING ''Failed to parse payload'' #
     dispatch c \<lparr>m_topic = ''activity'', m_type = ''trades'', m_timestamp = 5,
                 m_payload = trade_fields\<rparr>"
  by (simp add: process_frame_def trade_frame_def dict_get_def parse_payload_trades
        structured_def trade_fields_def required_def Message_init_def)

subsection \<open>Structured decode fails: the raw map is delivered\<close>

text \<open>
  Claim C1, as the code has it. A frame that decodes to an object, has a dictionary
  under \<open>payload\<close>, a (topic, type) pair of the table, a timestamp that is absent or
  accepted by the integer field of \<^verbatim>\<open>Message\<close>, and whose structured decode fails, is
  not lost when a message hook is set: the loop logs one warning and then calls the hook
  with an envelope whose payload is the dictionary as it came. (If the hook raises, that
  is logged as an error after the call.)
\<close>

theorem fallback_delivered:
  assumes "raw fr \<noteq> []"
    and "loads fr = Loaded (JObj d)"
    and "map_of d ''payload'' = Some (JObj p)"
    and "dict_get d ''topic'' (JStr '''') = JStr t"
    and "dict_get d ''type'' (JStr '''') = JStr y"
    and "decode_fails L (JStr t) (JStr y) (JObj p)"
    and "validate_int L (dict_get d ''timestamp'' (JInt 0)) = Some n"
    and "on_message_callback c = Some h"
  shows "process_frame L c fr =
           Logged WARNING ''Failed to parse payload''
           # OnMessage \<lparr>m_topic = t, m_type = y, m_timestamp = n, m_payload = p\<rparr>
           # (case h \<lparr>m_topic = t, m_type = y, m_timestamp = n, m_payload = p\<rparr> of
                Returns \<Rightarrow> []
              | Raises \<Rightarrow> [Logged ERROR ''Error processing message''])"
proof -
  have pl: "dict_get d ''payload'' (JObj []) = JObj p"
    using assms(3) by (simp add: dict_get_def)
  have pp: "parse_payload L (JStr t) (JStr y) (JObj p)
              = ([Logged WARNING ''Failed to parse payload''], IsRaw (JObj p))"
    using assms(6) by (rule parse_payload_fallback)
  have mi: "Message_init L (JStr t) (JStr y) (dict_get d ''timestamp'' (JInt 0)) (IsRaw (JObj p))
              = Some \<lparr>m_topic = t, m_type = y, m_timestamp = n, m_payload = p\<rparr>"
    using assms(7) by (simp add: Message_init_def)
  show ?thesis
    using assms(1,2,3,4,5,8) pl pp mi
    by (simp add: process_frame_def dispatch_def)
qed

text \<open>The scenario of the specification: a trade without \<open>asset\<close>.\<close>

theorem fallback_delivered_witness:
  "raw (trade_frame (JInt 1700000000) (JObj trade_fields)) \<noteq> []
   \<and> decode_fails no_coercions (JStr ''activity'') (JStr ''trades'') (JObj trade_fields)
   \<and> process_frame no_coercions fresh_client (trade_frame (JInt 1700000000) (JObj trade_fields)) =
       [Logged WARNING ''Failed to parse payload'',
        OnMessage \<lparr>m_topic = ''activity'', m_type = ''trades'', m_timestamp = 1700000000,
                   m_payload = trade_fields\<rparr>]"
proof -
  let ?d = "[(''topic'', JStr ''activity''), (''type'', JStr ''trades''),
             (''timestamp'', JInt 1700000000), (''payload'', JObj trade_fields)]"
  have fails: "decode_fails no_coercions (JStr ''activity'') (JStr ''trades'') (JObj trade_fields)"
    by (simp add: decode_fails_def trade_fields_def required_def)
  have "process_frame no_coercions fresh_client (trade_frame (JInt 1700000000) (JObj trade_fields)) =
          Logged WARNING ''Failed to parse payload''
          # OnMessage \<lparr>m_topic = ''activity'', m_type = ''trades'', m_timestamp = 1700000000,
                       m_payload = trade_fields\<rparr>
          # (case (\<lambda>_. Returns) \<lparr>m_topic = ''activity'', m_type = ''trades'',
                                    m_timestamp = 1700000000, m_payload = trade_fields\<rparr> of
               Returns \<Rightarrow> [] | Raises \<Rightarrow> [Logged ERROR ''Error processing message''])"
    by (rule fallback_delivered [where d = ?d])
       (simp_all add: trade_frame_def dict_get_def fails fresh_client_def)
  then show ?thesis
    using fails by (simp add: trade_frame_def)
qed

text \<open>
  C1 as stated does not hold for every well-formed frame of a recognised pair: with a
  null timestamp, or with a payload that is not a dictionary, the structured decode fails,
  the warning is logged, and then \<^verbatim>\<open>Message(...)\<close> raises, so the frame is dropped
  with an error and the hook is not called.
\<close>

theorem fallback_not_always_delivered:
  "process_frame no_coercions fresh_client (trade_frame JNull (JObj trade_fields)) =
     [Logged WARNING ''Failed to parse payload'', Logged ERROR ''Error processing message'']
   \<and> process_frame no_coercions fresh_client (trade_frame (JInt 1700000000) (JStr ''closed'')) =
     [Logged WARNING ''Failed to parse payload'', Logged ERROR ''Error processing message'']"
  by (simp add: process_frame_def trade_frame_def dict_get_def parse_payload_trades
        structured_def trade_fields_def required_def Message_init_def)

subsection \<open>A payload that is not a dictionary\<close>

text \<open>
  Claim C10. A frame that decodes to an object whose \<open>payload\<close> is not a dictionary is
  dropped: the loop logs an error (after the warning of the parser, when the pair is in
  the table) and the message hook is not called, whatever the hooks are.
\<close>

theorem non_map_payload_dropped:
  assumes "raw fr \<noteq> []"
    and "loads fr = Loaded (JObj d)"
    and "map_of d ''payload'' = Some v"
    and "\<forall>p. v \<noteq> JObj p"
  shows "(process_frame L c fr = [Logged ERROR ''Error processing message'']
          \<or> process_frame L c fr = [Logged WARNING ''Failed to parse payload'',
                                     Logged ERROR ''Error processing message''])
         \<and> (\<forall>m. OnMessage m \<notin> set (process_frame L c fr))"
proof -
  let ?topic = "dict_get d ''topic'' (JStr '''')"
  let ?ty = "dict_get d ''type'' (JStr '''')"
  have pl: "dict_get d ''payload'' (JObj []) = v"
    using assms(3) by (simp add: dict_get_def)
  have mi: "Message_init L ?topic ?ty ts (IsRaw v) = None" for ts
    by (rule Message_init_non_dict) (rule validate_dict_non_dict [OF assms(4)])
  from parse_payload_non_dict [OF assms(4), of L ?topic ?ty]
  have "process_frame L c fr = [Logged ERROR ''Error processing message'']
          \<or> process_frame L c fr = [Logged WARNING ''Failed to parse payload'',
                                     Logged ERROR ''Error processing message'']"
    using assms(1,2,3) pl mi by (auto simp: process_frame_def)
  then show ?thesis by auto
qed

text \<open>A trade frame whose payload is a string.\<close>

theorem non_map_payload_dropped_witness:
  "raw (trade_frame (JInt 5) (JStr ''closed'')) \<noteq> []
   \<and> process_frame no_coercions fresh_client (trade_frame (JInt 5) (JStr ''closed'')) =
       [Logged WARNING ''Failed to parse payload'', Logged ERROR ''Error processing message'']
   \<and> OnMessage \<lparr>m_topic = ''activity'', m_type = ''trades'', m_timestamp = 5, m_payload = []\<rparr>
       \<notin> set (process_frame no_coercions fresh_client (trade_frame (JInt 5) (JStr ''closed'')))"
proof -
  let ?d = "[(''topic'', JStr ''activity''), (''type'', JStr ''trades''),
             (''timestamp'', JInt 5), (''payload'', JStr ''closed'')]"
  have ev: "process_frame no_coercions fresh_client (trade_frame (JInt 5) (JStr ''closed'')) =
       [Logged WARNING ''Failed to parse payload'', Logged ERROR ''Error processing message'']"
    by (simp add: process_frame_def trade_frame_def dict_get_def parse_payload_trades
          structured_def Message_init_def)
  have "\<forall>m. OnMessage m \<notin> set (process_frame no_coercions fresh_client (trade_frame (JInt 5) (JStr ''closed'')))"
    using non_map_payload_dropped
            [of "trade_frame (JInt 5) (JStr ''closed'')" ?d "JStr ''closed''" no_coercions fresh_client]
    by (simp add: trade_frame_def)
  then show ?thesis using ev by (simp add: trade_frame_def)
qed

subsection \<open>The header fields of the envelope\<close>

text \<open>
  Claim C7. Every envelope handed to the message hook has its three header fields, and
  they are what \<^verbatim>\<open>data.get(key, default)\<close> gave: the frame's value when the key is
  there, and otherwise the empty string for \<open>topic\<close> and \<open>type\<close> and 0 for
  \<open>timestamp\<close>. Nothing is assumed about the payload, so this covers the envelopes
  built after a failed structured decode.
\<close>

theorem envelope_fields_defaulted:
  assumes "loads fr = Loaded (JObj d)"
    and "OnMessage m \<in> set (process_frame L c fr)"
  shows "JStr (m_topic m) = dict_get d ''topic'' (JStr '''')
         \<and> JStr (m_type m) = dict_get d ''type'' (JStr '''')
         \<and> validate_int L (dict_get d ''timestamp'' (JInt 0)) = Some (m_timestamp m)
         \<and> (map_of d ''topic'' = None \<longrightarrow> m_topic m = '''')
         \<and> (map_of d ''type'' = None \<longrightarrow> m_type m = '''')
         \<and> (map_of d ''timestamp'' = None \<longrightarrow> m_timestamp m = 0)"
proof -
  from process_frame_OnMessage [OF assms(2)] assms(1)
  have mi: "Message_init L (dict_get d ''topic'' (JStr '''')) (dict_get d ''type'' (JStr ''''))
                (dict_get d ''timestamp'' (JInt 0))
                (snd (parse_payload L (dict_get d ''topic'' (JStr ''''))
                        (dict_get d ''type'' (JStr '''')) (dict_get d ''payload'' (JObj []))))
              = Some m"
    by auto
  note f = Message_init_Some [OF mi]
  have t: "JStr (m_topic m) = dict_get d ''topic'' (JStr '''')" using f(1) by simp
  have y: "JStr (m_type m) = dict_get d ''type'' (JStr '''')" using f(2) by simp
  have n: "validate_int L (dict_get d ''timestamp'' (JInt 0)) = Some (m_timestamp m)" by (rule f(3))
  have "map_of d ''topic'' = None \<longrightarrow> m_topic m = ''''"
    using t by (auto simp: dict_get_def)
  moreover have "map_of d ''type'' = None \<longrightarrow> m_type m = ''''"
    using y by (auto simp: dict_get_def)
  moreover have "map_of d ''timestamp'' = None \<longrightarrow> m_timestamp m = 0"
    using n by (auto simp: dict_get_def)
  ultimately show ?thesis using t y n by blast
qed

text \<open>A frame with no header key at all gives the three defaults; a failed structured
  decode in a frame without a timestamp gives the timestamp 0.\<close>

theorem envelope_fields_defaulted_witness:
  "process_frame no_coercions fresh_client bare =
     [OnMessage \<lparr>m_topic = [], m_type = [], m_timestamp = 0, m_payload = [(''k'', JInt 1)]\<rparr>]
   \<and> process_frame no_coercions fresh_client untimed =
     [Logged WARNING ''Failed to parse payload'',
      OnMessage \<lparr>m_topic = ''activity'', m_type = ''trades'', m_timestamp = 0,
                 m_payload = trade_fields\<rparr>]"
proof -
  let ?d = "[(''payload'', JObj [(''k'', JInt 1)])]"
  obtain m where ev: "process_frame no_coercions fresh_client bare = [OnMessage m]"
    and pl: "m_payload m = [(''k'', JInt 1)]"
    by (simp add: bare_def process_frame_def dict_get_def parse_payload_def
          Message_init_def dispatch_def fresh_client_def)
  have "loads bare = Loaded (JObj ?d)" by (simp add: bare_def)
  moreover have "OnMessage m \<in> set (process_frame no_coercions fresh_client bare)"
    by (simp add: ev)
  ultimately have "m_topic m = [] \<and> m_type m = [] \<and> m_timestamp m = 0"
    using envelope_fields_defaulted [of bare ?d m no_coercions fresh_client] by simp
  with pl have "m = \<lparr>m_topic = [], m_type = [], m_timestamp = 0, m_payload = [(''k'', JInt 1)]\<rparr>"
    by (cases m) simp
  moreover have "process_frame no_coercions fresh_client untimed =
     [Logged WARNING ''Failed to parse payload'',
      OnMessage \<lparr>m_topic = ''activity'', m_type = ''trades'', m_timestamp = 0,
                 m_payload = trade_fields\<rparr>]"
    by (simp add: untimed_def process_frame_def dict_get_def parse_payload_trades
          structured_def trade_fields_def required_def Message_init_def dispatch_def
          fresh_client_def)
  ultimately show ?thesis using ev by simp
qed

text \<open>
  A remark on the envelopes that are built. When the structured decode succeeds,
  \<^verbatim>\<open>_parse_payload\<close> returns an instance of the model, and \<^verbatim>\<open>Message\<close> declares
  \<open>payload\<close> as \<^verbatim>\<open>Dict[str, Any]\<close>: the envelope cannot be built, the loop logs an
  error and the hook is not called. So every envelope that reaches the hook carries the
  raw dictionary of its frame.
\<close>

lemma delivered_payload_is_raw:
  assumes "loads fr = Loaded (JObj d)"
    and "OnMessage m \<in> set (process_frame L c fr)"
  shows "map_of d ''payload'' = Some (JObj (m_payload m))"
proof -
  let ?pl = "dict_get d ''payload'' (JObj [])"
  let ?pp = "parse_payload L (dict_get d ''topic'' (JStr '''')) (dict_get d ''type'' (JStr '''')) ?pl"
  from process_frame_OnMessage [OF assms(2)] assms(1)
  have key: "map_of d ''payload'' \<noteq> None"
    and mi: "Message_init L (dict_get d ''topic'' (JStr '''')) (dict_get d ''type'' (JStr ''''))
                (dict_get d ''timestamp'' (JInt 0)) (snd ?pp) = Some m"
    by auto
  have raw: "snd ?pp = IsRaw (JObj (m_payload m))"
    by (rule Message_init_Some(4) [OF mi])
  have "snd ?pp = IsRaw ?pl"
    using parse_payload_cases [of L "dict_get d ''topic'' (JStr '''')"
            "dict_get d ''type'' (JStr '''')" ?pl] raw
    by (auto simp: structured_def split: option.splits)
  with raw have "?pl = JObj (m_payload m)" by simp
  with key show ?thesis by (auto simp: dict_get_def)
qed

lemma decoded_trade_not_delivered:
  assumes "Trade_init L p = Some t"
  shows "process_frame L c (trade_frame ts p) = [Logged ERROR ''Error processing message'']"
  using assms
  by (simp add: process_frame_def trade_frame_def dict_get_def parse_payload_trades
        structured_def Message_init_def split: Option.bind_split)

subsection \<open>Malformed frames\<close>

lemma process_frame_malformed:
  assumes "raw fr \<noteq> []" and "loads fr = JSONDecodeError \<or> loads fr = OtherException"
  shows "process_frame L c fr =
           [Logged ERROR (if loads fr = JSONDecodeError then ''Failed to parse message''
                          else ''Error processing message'')]"
  using assms by (auto simp: process_frame_def)

text \<open>
  Claim C2, as the code has it. A frame that is not empty and on which \<^verbatim>\<open>json.loads\<close>
  raises produces exactly one error entry and no hook call; the loop raises nothing for
  it and goes on with the frames that follow, on the same client.
\<close>

theorem malformed_frame_reported:
  assumes "raw fr \<noteq> []" and "loads fr = JSONDecodeError \<or> loads fr = OtherException"
  shows "process_frame L c fr =
           [Logged ERROR (if loads fr = JSONDecodeError then ''Failed to parse message''
                          else ''Error processing message'')]
         \<and> message_loop L c (Recv fr # rest) =
             (case message_loop L c rest of
                (es, c', ok) \<Rightarrow>
                  (Logged ERROR (if loads fr = JSONDecodeError then ''Failed to parse message''
                                 else ''Error processing message'') # es, c', ok))"
proof -
  note pf = process_frame_malformed [OF assms, of L c]
  show ?thesis
    by (simp add: pf split: prod.splits)
qed

text \<open>A truncated frame followed by the trade without \<open>asset\<close>: one error entry, and
  the trade is delivered.\<close>

theorem malformed_frame_reported_witness:
  "raw \<lparr>raw = ''{oops'', loads = JSONDecodeError\<rparr> \<noteq> []
   \<and> process_frame no_coercions fresh_client \<lparr>raw = ''{oops'', loads = JSONDecodeError\<rparr> =
       [Logged ERROR ''Failed to parse message'']
   \<and> message_loop no_coercions fresh_client
        [Recv \<lparr>raw = ''{oops'', loads = JSONDecodeError\<rparr>,
         Recv (trade_frame (JInt 5) (JObj trade_fields))] =
       ([Logged ERROR ''Failed to parse message'',
         Logged WARNING ''Failed to parse payload'',
         OnMessage \<lparr>m_topic = ''activity'', m_type = ''trades'', m_timestamp = 5,
                    m_payload = trade_fields\<rparr>],
        fresh_client, True)"
proof -
  have next_frame:
    "process_frame no_coercions fresh_client (trade_frame (JInt 5) (JObj trade_fields)) =
       [Logged WARNING ''Failed to parse payload'',
        OnMessage \<lparr>m_topic = ''activity'', m_type = ''trades'', m_timestamp = 5,
                   m_payload = trade_fields\<rparr>]"
    by (simp add: process_frame_def trade_frame_def dict_get_def parse_payload_trades
          structured_def trade_fields_def required_def Message_init_def dispatch_def
          fresh_client_def)
  show ?thesis
    using malformed_frame_reported
            [of "\<lparr>raw = ''{oops'', loads = JSONDecodeError\<rparr>" no_coercions fresh_client
                "[Recv (trade_frame (JInt 5) (JObj trade_fields))]"]
    by (simp add: next_frame)
qed

text \<open>
  C2 as stated says every malformed frame is reported. The empty frame is not JSON
  either, and the guard \<^verbatim>\<open>if not message: continue\<close> skips it without a report.
\<close>

theorem empty_frame_not_reported:
  "loads \<lparr>raw = [], loads = JSONDecodeError\<rparr> = JSONDecodeError
   \<and> process_frame no_coercions fresh_client \<lparr>raw = [], loads = JSONDecodeError\<rparr> = []"
  by (simp add: process_frame_def)

text \<open>The guard skips every empty frame, whatever \<^verbatim>\<open>json.loads\<close> would do on it.\<close>

lemma empty_frame_skipped: "raw fr = [] \<Longrightarrow> process_frame L c fr = []"
  by (simp add: process_frame_def)

subsection \<open>The connect hook\<close>

lemma disconnect_events: "e \<in> set (fst (disconnect c)) \<Longrightarrow> e = WsClose"
  by (auto simp: disconnect_def Let_def split: option.splits)

lemma message_loop_events:
  "e \<in> set (fst (message_loop L c xs)) \<Longrightarrow>
     (\<exists>l s. e = Logged l s) \<or> (\<exists>m. e = OnMessage m) \<or> e = WsClose \<or> e = DisconnectCalled"
proof (induction L c xs rule: message_loop.induct)
  case (2 L c fr rest)
  then show ?case
    by (auto split: prod.splits dest: process_frame_events)
next
  case (3 L c rest)
  obtain ds c1 where d: "disconnect c = (ds, c1)" by (cases "disconnect c")
  have ds: "x \<in> set ds \<Longrightarrow> x = WsClose" for x
    using disconnect_events [of x c] d by simp
  from 3 d show ?case
    by (auto split: prod.splits dest: ds)
qed simp_all

text \<open>
  Claim C5. With a connect hook set, one turn of the loop on an established connection
  logs the connection, calls the hook, and only then does the rest: the hook is not
  called again in that turn, and every call of the message hook for the connection
  comes after it.
\<close>

theorem connect_hook_once_before_messages:
  assumes "on_connect_callback c = Some r"
  shows "\<exists>post. fst (connect_once L c (Established arrivals)) =
                  [Connecting, Logged INFO ''Connected'', OnConnect] @ post
                \<and> OnConnect \<notin> set post"
proof (cases r)
  case Raises
  with assms show ?thesis
    by (simp add: session_def)
next
  case Returns
  let ?c2 = "c\<lparr>websocket := Some OPEN, running := True, ping_task := Some ACTIVE\<rparr>"
  obtain es c3 ok where ml: "message_loop L ?c2 arrivals = (es, c3, ok)"
    by (cases "message_loop L ?c2 arrivals")
  have "OnConnect \<notin> set es"
    using message_loop_events [of OnConnect L ?c2 arrivals] ml by auto
  with assms Returns ml show ?thesis
    by (simp add: session_def)
qed

text \<open>One connection that yields the trade without \<open>asset\<close> and is then closed.\<close>

theorem connect_hook_once_before_messages_witness:
  "on_connect_callback fresh_client = Some Returns
   \<and> fst (connect_once no_coercions fresh_client
            (Established [Recv (trade_frame (JInt 5) (JObj trade_fields))])) =
       [Connecting, Logged INFO ''Connected'', OnConnect, PingStarted,
        Logged WARNING ''Failed to parse payload'',
        OnMessage \<lparr>m_topic = ''activity'', m_type = ''trades'', m_timestamp = 5,
                   m_payload = trade_fields\<rparr>,
        PingCancelled]"
proof -
  have h: "on_connect_callback fresh_client = Some Returns"
    by (simp add: fresh_client_def)
  have pf: "process_frame no_coercions c (trade_frame (JInt 5) (JObj trade_fields)) =
       Logged WARNING ''Failed to parse payload'' #
       dispatch c \<lparr>m_topic = ''activity'', m_type = ''trades'', m_timestamp = 5,
                   m_payload = trade_fields\<rparr>" for c
    by (simp add: process_frame_def trade_frame_def dict_get_def parse_payload_trades
          structured_def trade_fields_def required_def Message_init_def)
  have ev: "fst (connect_once no_coercions fresh_client
            (Established [Recv (trade_frame (JInt 5) (JObj trade_fields))])) =
       [Connecting, Logged INFO ''Connected'', OnConnect, PingStarted,
        Logged WARNING ''Failed to parse payload'',
        OnMessage \<lparr>m_topic = ''activity'', m_type = ''trades'', m_timestamp = 5,
                   m_payload = trade_fields\<rparr>,
        PingCancelled]"
    by (simp add: session_def pf dispatch_def fresh_client_def)
  from connect_hook_once_before_messages [OF h, of no_coercions
         "[Recv (trade_frame (JInt 5) (JObj trade_fields))]"]
  obtain post where "fst (connect_once no_coercions fresh_client
            (Established [Recv (trade_frame (JInt 5) (JObj trade_fields))])) =
       [Connecting, Logged INFO ''Connected'', OnConnect] @ post" by blast
  with h ev show ?thesis by simp
qed

subsection \<open>After \<^verbatim>\<open>disconnect()\<close>\<close>

text \<open>A second \<^verbatim>\<open>disconnect()\<close> does what the first did and leaves the client as the
  first left it.\<close>

lemma disconnect_idempotent: "disconnect (snd (disconnect c)) = disconnect c"
  by (simp add: disconnect_def Let_def split: option.splits)

lemma disconnect_fields:
  "\<not> running (snd (disconnect c))"
  "auto_reconnect (snd (disconnect c)) = auto_reconnect c"
  by (simp_all add: disconnect_def Let_def split: option.splits)

lemma message_loop_auto_reconnect:
  "auto_reconnect (fst (snd (message_loop L c xs))) = auto_reconnect c"
proof (induction L c xs rule: message_loop.induct)
  case (3 L c rest)
  obtain ds c1 where d: "disconnect c = (ds, c1)" by (cases "disconnect c")
  then have "auto_reconnect c1 = auto_reconnect c" using disconnect_fields(2) [of c] by simp
  moreover have "auto_reconnect (fst (snd (message_loop L c1 rest))) = auto_reconnect c1"
    using 3 d by simp
  ultimately show ?case using d by (auto split: prod.splits)
qed (auto split: prod.splits)

lemma session_raises:
  assumes "on_connect_callback c = Some Raises"
  shows "session L c xs =
           ([Logged INFO ''Connected'', OnConnect],
            c\<lparr>websocket := Some OPEN, running := True\<rparr>, False)"
  using assms by (simp add: session_def)

lemma session_runs:
  assumes "on_connect_callback c \<noteq> Some Raises"
    and "message_loop L (c\<lparr>websocket := Some OPEN, running := True, ping_task := Some ACTIVE\<rparr>) xs
           = (es, c2, ok)"
  shows "session L c xs =
           ([Logged INFO ''Connected'']
            @ (case on_connect_callback c of None \<Rightarrow> [] | Some _ \<Rightarrow> [OnConnect])
            @ [PingStarted] @ es
            @ (if ok then [] else [Logged ERROR ''Message loop error''])
            @ [PingCancelled],
            c2\<lparr>ping_task := Some CANCELLED\<rparr>, True)"
  using assms by (simp add: session_def Let_def split: option.splits hook_result.splits)

text \<open>One turn on an established connection whose connect hook does not raise: the
  events before the receive loop, those of the loop, those after it.\<close>

lemma connect_once_runs:
  assumes "on_connect_callback c \<noteq> Some Raises"
    and "message_loop L (c\<lparr>websocket := Some OPEN, running := True, ping_task := Some ACTIVE\<rparr>) xs
           = (es, c2, ok)"
  shows "connect_once L c (Established xs) =
           ((Connecting # Logged INFO ''Connected''
               # (case on_connect_callback c of None \<Rightarrow> [] | Some _ \<Rightarrow> [OnConnect])
               @ [PingStarted])
            @ es
            @ ((if ok then [] else [Logged ERROR ''Message loop error'']) @ [PingCancelled]),
            c2\<lparr>ping_task := Some CANCELLED, websocket := Some CLOSED\<rparr>, True)"
  by (simp add: session_runs [OF assms])

lemma connect_once_raises:
  assumes "on_connect_callback c = Some Raises"
  shows "connect_once L c (Established xs) =
           ([Connecting, Logged INFO ''Connected'', OnConnect, Logged ERROR ''Connection error''],
            c\<lparr>websocket := Some CLOSED, running := True\<rparr>, False)"
  by (simp add: session_raises [OF assms])

lemma connect_once_auto_reconnect:
  "auto_reconnect (fst (snd (connect_once L c a))) = auto_reconnect c"
proof (cases a)
  case Refused
  then show ?thesis by simp
next
  case (Established xs)
  show ?thesis
  proof (cases "on_connect_callback c = Some Raises")
    case True
    then show ?thesis using Established by (simp add: connect_once_raises del: connect_once.simps)
  next
    case False
    let ?c = "c\<lparr>websocket := Some OPEN, running := True, ping_task := Some ACTIVE\<rparr>"
    obtain es c2 ok where ml: "message_loop L ?c xs = (es, c2, ok)"
      by (cases "message_loop L ?c xs")
    have "auto_reconnect c2 = auto_reconnect c"
      using message_loop_auto_reconnect [of L ?c xs] ml by simp
    then show ?thesis
      using Established by (simp add: connect_once_runs [OF False ml] del: connect_once.simps)
  qed
qed

lemma connect_single_shot:
  assumes "\<not> auto_reconnect c"
  shows "connect L c (a # rest) =
           (fst (connect_once L c a), fst (snd (connect_once L c a)), True)"
proof -
  obtain es c' ok where co: "connect_once L c a = (es, c', ok)"
    by (cases "connect_once L c a")
  then have "\<not> auto_reconnect c'"
    using connect_once_auto_reconnect [of L c a] assms by simp
  with co show ?thesis by simp
qed

text \<open>The loop of \<^verbatim>\<open>connect\<close> is gated by \<open>auto_reconnect\<close> alone: with the flag off it
  returns at the end of its first turn, with the flag on it always takes the next
  attempt, whatever \<open>running\<close> is.\<close>

lemma connect_ignores_running:
  assumes "auto_reconnect c"
  shows "connect L c (a # rest) =
           (case connect_once L c a of
              (es, c', ok) \<Rightarrow>
                (case connect L c' rest of
                   (es', c'', returned) \<Rightarrow>
                     (es @ (if ok then [] else [Sleep 5]) @ es', c'', returned)))"
proof -
  obtain es c' ok where co: "connect_once L c a = (es, c', ok)"
    by (cases "connect_once L c a")
  then have "auto_reconnect c'"
    using connect_once_auto_reconnect [of L c a] assms by simp
  with co show ?thesis by (simp split: prod.splits)
qed

text \<open>
  Claim C4 says that after \<^verbatim>\<open>disconnect()\<close> no reconnect attempt begins, no hook is
  invoked and no keepalive task remains. The code does otherwise on a client as the
  constructor leaves it (\<open>auto_reconnect\<close> on, both hooks set) whose first connection is
  up when \<^verbatim>\<open>disconnect()\<close> is called: the call clears \<open>running\<close> and closes the
  transport, the receive loop ends, the keepalive task is cancelled, and then the loop
  of \<^verbatim>\<open>connect\<close>, which never reads \<open>running\<close>, connects again, calls the connect hook,
  starts a keepalive task and dispatches the frame of the new connection.
\<close>

theorem reconnects_after_disconnect:
  "auto_reconnect fresh_client
   \<and> after_disconnect
       (fst (connect no_coercions fresh_client
               [Established [Call_disconnect],
                Established [Recv (trade_frame (JInt 5) (JObj trade_fields))]])) =
       [WsClose, PingCancelled, Connecting, Logged INFO ''Connected'', OnConnect, PingStarted,
        Logged WARNING ''Failed to parse payload'',
        OnMessage \<lparr>m_topic = ''activity'', m_type = ''trades'', m_timestamp = 5,
                   m_payload = trade_fields\<rparr>,
        PingCancelled]"
  by (simp add: fresh_client_def session_def disconnect_def process_trade_frame dispatch_def
        after_disconnect_def)

text \<open>
  The same defect with \<open>auto_reconnect\<close> off. A call of \<^verbatim>\<open>disconnect()\<close> that lands
  while the first handshake is pending finds no transport and only clears \<open>running\<close>;
  the turn then sets \<open>running\<close> again, calls the connect hook, starts the keepalive task
  and dispatches.
\<close>

lemma disconnect_during_handshake_undone:
  "connect no_coercions (snd (disconnect single_shot_client))
     [Established [Recv (trade_frame (JInt 5) (JObj trade_fields))]] =
     ([Connecting, Logged INFO ''Connected'', OnConnect, PingStarted,
       Logged WARNING ''Failed to parse payload'',
       OnMessage \<lparr>m_topic = ''activity'', m_type = ''trades'', m_timestamp = 5,
                  m_payload = trade_fields\<rparr>,
       PingCancelled],
      single_shot_client\<lparr>websocket := Some CLOSED, ping_task := Some CANCELLED,
                          running := True\<rparr>,
      True)"
  by (simp add: single_shot_client_def fresh_client_def session_def disconnect_def
        process_trade_frame dispatch_def)

subsection \<open>Subscriptions\<close>

lemma not_connected_raises:
  assumes "websocket c = None"
  shows "subscribe c msg delivered = Inl NotConnected"
    and "unsubscribe c msg delivered = Inl NotConnected"
  using assms by (simp_all add: subscribe_def unsubscribe_def)

text \<open>
  Claim C3 on a client whose connection has been closed. \<^verbatim>\<open>disconnect()\<close> closes the
  transport and leaves the handle in \<open>websocket\<close>, as leaving \<^verbatim>\<open>async with\<close> does. The
  test \<^verbatim>\<open>if not self.websocket\<close> then passes: \<^verbatim>\<open>subscribe\<close> and \<^verbatim>\<open>unsubscribe\<close> raise
  nothing, call \<^verbatim>\<open>send\<close> on the closed transport, log the failure and call
  \<^verbatim>\<open>close\<close>. Only a client that never had a transport gets the error
  (\<open>not_connected_raises\<close>).
\<close>

theorem subscribe_on_closed_transport:
  "websocket (snd (disconnect connected_client)) = Some CLOSED
   \<and> subscribe (snd (disconnect connected_client)) \<lparr>subscriptions = [trades_subscription]\<rparr> True =
       Inr ([WsSend (subscription_dict ''subscribe'' \<lparr>subscriptions = [trades_subscription]\<rparr>),
             Logged ERROR ''Subscribe error'', WsClose],
            snd (disconnect connected_client))
   \<and> unsubscribe (snd (disconnect connected_client)) \<lparr>subscriptions = [trades_subscription]\<rparr> True =
       Inr ([WsSend (subscription_dict ''unsubscribe'' \<lparr>subscriptions = [trades_subscription]\<rparr>),
             Logged ERROR ''Unsubscribe error'', WsClose],
            snd (disconnect connected_client))"
  by (simp add: disconnect_def connected_client_def fresh_client_def subscribe_def
        unsubscribe_def)

lemma Subscription_validate_dump:
  "Subscription_validate (Subscription_dump s) = Some s"
  by (cases s)
     (simp add: Subscription_validate_def Subscription_dump_def required_def defaulted_def
        validate_optional_def dump_optional_def ClobApiKeyCreds_dump_def GammaAuth_dump_def
        split: option.splits)

lemma validate_subscriptions_dump:
  "validate_subscriptions (map (\<lambda>s. JObj (Subscription_dump s)) ss) = Some ss"
  by (induction ss) (simp_all add: Subscription_validate_dump)

lemma read_frame_subscription_dict:
  "read_frame (subscription_dict action msg) = Some (action, msg)"
  by (simp add: subscription_dict_def SubscriptionMessage_dump_def required_def
        validate_subscriptions_dump)

text \<open>
  Claim C8. The value \<^verbatim>\<open>subscribe\<close> hands to \<^verbatim>\<open>json.dumps\<close> reads back as the action
  \<open>subscribe\<close> and the list of subscriptions that went in, field for field; and on an
  open transport that carries the frame out, this value is what \<^verbatim>\<open>subscribe\<close> sends.
\<close>

theorem subscribe_round_trip:
  "read_frame (subscription_dict ''subscribe'' msg) = Some (''subscribe'', msg)
   \<and> subscribe (c\<lparr>websocket := Some OPEN\<rparr>) msg True =
       Inr ([WsSend (subscription_dict ''subscribe'' msg), Logged INFO ''Subscribed''],
            c\<lparr>websocket := Some OPEN\<rparr>)"
  by (simp add: read_frame_subscription_dict subscribe_def)

theorem subscribe_round_trip_witness:
  "read_frame
     (JObj [(''action'', JStr ''subscribe''),
            (''subscriptions'',
             JArr [JObj [(''topic'', JStr ''activity''), (''type'', JStr ''trades''),
                         (''filters'', JNull), (''clob_auth'', JNull),
                         (''gamma_auth'', JNull)]])]) =
     Some (''subscribe'', \<lparr>subscriptions = [trades_subscription]\<rparr>)"
  using subscribe_round_trip [of "\<lparr>subscriptions = [trades_subscription]\<rparr>" connected_client]
  by (simp add: subscription_dict_def SubscriptionMessage_dump_def Subscription_dump_def
        trades_subscription_def dump_optional_def)

text \<open>
  Claim C9, as the code has it. \<^verbatim>\<open>Subscription\<close> has two independent optional
  fields: whatever the two credentials are, present or absent, the constructor accepts
  them and the instance carries both as given.
\<close>

theorem credentials_independent:
  "Subscription_validate
     [(''topic'', JStr t), (''type'', JStr ty), (''filters'', dump_optional JStr f),
      (''clob_auth'', dump_optional ClobApiKeyCreds_dump cl),
      (''gamma_auth'', dump_optional GammaAuth_dump g)] =
     Some \<lparr>sub_topic = t, sub_type = ty, filters = f, clob_auth = cl, gamma_auth = g\<rparr>"
  using Subscription_validate_dump
          [of "\<lparr>sub_topic = t, sub_type = ty, filters = f, clob_auth = cl, gamma_auth = g\<rparr>"]
  by (simp add: Subscription_dump_def)

theorem credentials_independent_witness:
  "Subscription_validate
     [(''topic'', JStr ''comments''), (''type'', JStr ''*''), (''filters'', JNull),
      (''clob_auth'', JNull), (''gamma_auth'', JObj [(''address'', JStr ''0xa'')])] =
     Some \<lparr>sub_topic = ''comments'', sub_type = ''*'', filters = None, clob_auth = None,
           gamma_auth = Some \<lparr>address = ''0xa''\<rparr>\<rparr>"
  using credentials_independent [of "''comments''" "''*''" None None "Some \<lparr>address = ''0xa''\<rparr>"]
  by (simp add: dump_optional_def GammaAuth_dump_def)

text \<open>C9 as stated says no entry can carry both credentials. This one does: the
  constructor is given both and accepts them.\<close>

theorem both_credentials_accepted:
  "Subscription_validate
     [(''topic'', JStr ''comments''), (''type'', JStr ''*''),
      (''clob_auth'', JObj [(''key'', JStr ''k''), (''secret'', JStr ''s''),
                            (''passphrase'', JStr ''p'')]),
      (''gamma_auth'', JObj [(''address'', JStr ''0xa'')])] = Some both_credentials
   \<and> clob_auth both_credentials \<noteq> None
   \<and> gamma_auth both_credentials \<noteq> None"
  by (simp add: Subscription_validate_def required_def defaulted_def validate_optional_def
        both_credentials_def)

end
